theory Spec2Isabelle
  imports Main "HOL-Library.Word"
begin

section \<open>JavaScript values\<close>

text \<open>
  The coordinators of \<^verbatim>\<open>scan.service.ts\<close> and \<^verbatim>\<open>worker-scan.service.ts\<close> decide
  everything with JavaScript's own operators: \<^verbatim>\<open>||\<close> picks the timeout and the scan id,
  \<^verbatim>\<open>in\<close>, \<^verbatim>\<open>===\<close> and \<^verbatim>\<open>instanceof\<close> classify what was thrown or posted, and template
  literals build the messages. The values they work on are modelled as the language has them.

  Primitives. A number is a double. The integers from \<^verbatim>\<open>-2^53\<close> to \<^verbatim>\<open>2^53 - 1\<close> are all
  doubles, and \<^verbatim>\<open>String\<close> prints them in plain decimal: they are \<open>JNum n\<close>, with \<open>n\<close> a
  signed 54-bit word read by \<open>sint\<close> (both zeros are \<open>JNum 0\<close>). Every other number but
  \<^verbatim>\<open>NaN\<close> (a fraction, a larger integer, an infinity) is \<open>JOther r\<close>, where \<open>r\<close> is what
  \<^verbatim>\<open>String\<close> prints for it, such as \<^verbatim>\<open>1e+21\<close>, \<^verbatim>\<open>0.5\<close> or \<^verbatim>\<open>Infinity\<close>: \<^verbatim>\<open>String\<close> tells two
  numbers apart, and none of them is zero. The program does no arithmetic on numbers. An
  absent option or an absent configuration key is \<^verbatim>\<open>undefined\<close>.
\<close>

type_synonym safe_int = "54 word"

datatype jsprim =
  JUndefined | JNull | JBool bool | JNum safe_int | JOther string | JNaN | JStr string

text \<open>
  Any value: a primitive, an object with its properties in insertion order, an array
  (the \<^verbatim>\<open>findings\<close> of a result), or a function. The flag of an object says whether
  it is an \<^verbatim>\<open>Error\<close> instance (\<^verbatim>\<open>x instanceof Error\<close>).
\<close>

datatype jsval = Prim jsprim | Obj bool "(string \<times> jsval) list" | Arr "jsval list" | Fun

text \<open>\<^verbatim>\<open>ToBoolean\<close>: what \<^verbatim>\<open>||\<close>, \<^verbatim>\<open>&&\<close> and \<^verbatim>\<open>if\<close> look at.\<close>

fun truthy_prim :: "jsprim \<Rightarrow> bool" where
  "truthy_prim JUndefined = False"
| "truthy_prim JNull = False"
| "truthy_prim (JBool b) = b"
| "truthy_prim (JNum n) = (n \<noteq> 0)"
| "truthy_prim (JOther r) = True"
| "truthy_prim JNaN = False"
| "truthy_prim (JStr s) = (s \<noteq> [])"

fun truthy :: "jsval \<Rightarrow> bool" where
  "truthy (Prim p) = truthy_prim p"
| "truthy (Obj e ps) = True"
| "truthy (Arr xs) = True"
| "truthy Fun = True"

text \<open>\<^verbatim>\<open>a || b\<close> on primitives: the left operand when it is truthy, else the right one.\<close>

definition js_or :: "jsprim \<Rightarrow> jsprim \<Rightarrow> jsprim" where
  "js_or a b = (if truthy_prim a then a else b)"

text \<open>
  Property lookup \<^verbatim>\<open>o.k\<close> (\<^verbatim>\<open>undefined\<close> when absent) and the test \<^verbatim>\<open>'k' in o\<close>, for
  the names the code reads: \<^verbatim>\<open>code\<close>, \<^verbatim>\<open>message\<close>, \<^verbatim>\<open>scanId\<close>, \<^verbatim>\<open>timeoutMs\<close>,
  \<^verbatim>\<open>details\<close> (an array or a function has none of them).
\<close>

fun js_get :: "jsval \<Rightarrow> string \<Rightarrow> jsval" where
  "js_get (Obj e ps) k = (case map_of ps k of Some v \<Rightarrow> v | None \<Rightarrow> Prim JUndefined)"
| "js_get (Prim p) k = Prim JUndefined"
| "js_get (Arr xs) k = Prim JUndefined"
| "js_get Fun k = Prim JUndefined"

fun js_in :: "string \<Rightarrow> jsval \<Rightarrow> bool" where
  "js_in k (Obj e ps) = (map_of ps k \<noteq> None)"
| "js_in k (Prim p) = False"
| "js_in k (Arr xs) = False"
| "js_in k Fun = False"

fun instanceofError :: "jsval \<Rightarrow> bool" where
  "instanceofError (Obj e ps) = e"
| "instanceofError (Prim p) = False"
| "instanceofError (Arr xs) = False"
| "instanceofError Fun = False"

fun typeof_object :: "jsval \<Rightarrow> bool" where
  "typeof_object (Obj e ps) = True"
| "typeof_object (Arr xs) = True"
| "typeof_object (Prim JNull) = True"
| "typeof_object (Prim p) = False"
| "typeof_object Fun = False"

text \<open>
  Two operations throw a \<^verbatim>\<open>TypeError\<close>: \<^verbatim>\<open>'k' in x\<close> when \<open>x\<close> is not an object (any
  primitive), and the property access \<^verbatim>\<open>x.k\<close> when \<open>x\<close> is \<^verbatim>\<open>null\<close> or \<^verbatim>\<open>undefined\<close>.
  Where the code guards them (the inline \<^verbatim>\<open>catch\<close> block tests \<^verbatim>\<open>typeof\<close> and
  \<^verbatim>\<open>instanceof\<close> first) \<open>js_in\<close> and \<open>js_get\<close> are used as they are; where it does not (the
  \<^verbatim>\<open>message\<close> and \<^verbatim>\<open>error\<close> handlers of the isolated coordinator) the model tests
  \<open>is_object\<close> and \<open>nullish\<close> first and takes the throwing branch.
\<close>

fun is_object :: "jsval \<Rightarrow> bool" where
  "is_object (Prim p) = False"
| "is_object (Obj e ps) = True"
| "is_object (Arr xs) = True"
| "is_object Fun = True"

fun nullish :: "jsval \<Rightarrow> bool" where
  "nullish (Prim JUndefined) = True"
| "nullish (Prim JNull) = True"
| "nullish v = False"

text \<open>
  Template literals: \<^verbatim>\<open>`${x}`\<close> is \<^verbatim>\<open>String(x)\<close>. An integer of the range above prints in
  decimal, with a leading minus sign when negative; any other number prints as \<open>r\<close>.
\<close>

fun show_nat :: "nat \<Rightarrow> string" where
  "show_nat n =
     (if n < 10 then [''0123456789'' ! n]
      else show_nat (n div 10) @ [''0123456789'' ! (n mod 10)])"

declare show_nat.simps [simp del]

definition show_int :: "int \<Rightarrow> string" where
  "show_int i = (if i < 0 then CHR ''-'' # show_nat (nat (- i)) else show_nat (nat i))"

fun js_template :: "jsprim \<Rightarrow> string" where
  "js_template JUndefined = ''undefined''"
| "js_template JNull = ''null''"
| "js_template (JBool b) = (if b then ''true'' else ''false'')"
| "js_template (JNum n) = show_int (sint n)"
| "js_template (JOther r) = r"
| "js_template JNaN = ''NaN''"
| "js_template (JStr s) = s"

section \<open>Configuration and the deadline policy\<close>

text \<open>
  \<^verbatim>\<open>ConfigService.get(key)\<close> is a lookup that gives \<^verbatim>\<open>undefined\<close> for an absent key.
  Both constructors read the one key \<^verbatim>\<open>SCAN_MAX_EXECUTION_TIME_MS\<close> and keep
  \<^verbatim>\<open>get(key) || 30000\<close> in the read-only field \<^verbatim>\<open>maxExecutionTime\<close>; they also log the
  value.
\<close>

type_synonym ConfigService = "string \<Rightarrow> jsprim"

datatype log_entry = LogInfo string | LogWarn string | LogError string "jsval option"

record ScanService =
  maxExecutionTime :: jsprim

definition ScanService_constructor :: "ConfigService \<Rightarrow> ScanService \<times> log_entry list" where
  "ScanService_constructor configService =
     (let m = js_or (configService ''SCAN_MAX_EXECUTION_TIME_MS'') (JNum 30000)
      in (\<lparr>maxExecutionTime = m\<rparr>,
          [LogInfo (''Scan service initialized with max execution time: ''
                    @ js_template m @ ''ms'')]))"

definition WorkerScanService_constructor :: "ConfigService \<Rightarrow> ScanService \<times> log_entry list" where
  "WorkerScanService_constructor configService =
     (let m = js_or (configService ''SCAN_MAX_EXECUTION_TIME_MS'') (JNum 30000)
      in (\<lparr>maxExecutionTime = m\<rparr>,
          [LogInfo (''Worker scan service initialized with max execution time: ''
                    @ js_template m @ ''ms'')]))"

definition getMaxExecutionTime :: "ScanService \<Rightarrow> jsprim" where
  "getMaxExecutionTime svc = maxExecutionTime svc"

text \<open>
  The options of a call, \<^verbatim>\<open>{ timeoutMs?, scanId? }\<close>; the whole argument may be missing
  (\<open>None\<close>), and \<^verbatim>\<open>options?.timeoutMs\<close> is then \<^verbatim>\<open>undefined\<close>.
\<close>

record ScanOptions =
  opt_timeoutMs :: jsprim
  opt_scanId :: jsprim

definition options_timeoutMs :: "ScanOptions option \<Rightarrow> jsprim" where
  "options_timeoutMs options = (case options of None \<Rightarrow> JUndefined | Some o' \<Rightarrow> opt_timeoutMs o')"

definition options_scanId :: "ScanOptions option \<Rightarrow> jsprim" where
  "options_scanId options = (case options of None \<Rightarrow> JUndefined | Some o' \<Rightarrow> opt_scanId o')"

text \<open>
  First lines of \<^verbatim>\<open>executeScan\<close> and of \<^verbatim>\<open>executeScanInWorker\<close>:
  \<^verbatim>\<open>const timeoutMs = options?.timeoutMs || this.maxExecutionTime\<close> and
  \<^verbatim>\<open>const scanId = options?.scanId || this.generateScanId()\<close>. The generated id depends
  on the clock and on \<^verbatim>\<open>Math.random\<close>; it is an argument here.
\<close>

definition effectiveTimeout :: "ScanService \<Rightarrow> ScanOptions option \<Rightarrow> jsprim" where
  "effectiveTimeout svc options = js_or (options_timeoutMs options) (maxExecutionTime svc)"

definition effectiveScanId :: "ScanOptions option \<Rightarrow> string \<Rightarrow> jsprim" where
  "effectiveScanId options generated = js_or (options_scanId options) (JStr generated)"

text \<open>
  The spec's \<^verbatim>\<open>resolve(perJobOverride, defaultFromConfig, 30000)\<close> is these two steps
  together: a service built from a configuration holding the default, then a call with
  the override. The fallback is the literal of the constructors.
\<close>

definition config_with :: "jsprim \<Rightarrow> ConfigService" where
  "config_with d = (\<lambda>k. if k = ''SCAN_MAX_EXECUTION_TIME_MS'' then d else JUndefined)"

definition resolve_inline :: "jsprim \<Rightarrow> jsprim \<Rightarrow> jsprim" where
  "resolve_inline override dflt =
     effectiveTimeout (fst (ScanService_constructor (config_with dflt)))
       (Some \<lparr>opt_timeoutMs = override, opt_scanId = JUndefined\<rparr>)"

definition resolve_worker :: "jsprim \<Rightarrow> jsprim \<Rightarrow> jsprim" where
  "resolve_worker override dflt =
     effectiveTimeout (fst (WorkerScanService_constructor (config_with dflt)))
       (Some \<lparr>opt_timeoutMs = override, opt_scanId = JUndefined\<rparr>)"

section \<open>Outcomes and effects\<close>

text \<open>
  The promise a coordinator hands to its caller settles with a value (\<open>Completed\<close>) or
  with a rejection reason (\<open>Failed\<close>: the thrown or rejected value, whose \<^verbatim>\<open>code\<close> tells a
  timeout from a fault). Everything a handler does is written to a journal in the order
  it happens: log lines, \<^verbatim>\<open>worker.terminate()\<close>, \<^verbatim>\<open>clearTimeout\<close>, a \<^verbatim>\<open>TypeError\<close> that
  leaves an event handler uncaught, and each delivery of an outcome (a \<^verbatim>\<open>return\<close> or
  \<^verbatim>\<open>throw\<close> of the async body, a call of \<^verbatim>\<open>resolve\<close> or \<^verbatim>\<open>reject\<close>).
\<close>

datatype outcome = Completed jsval | Failed jsval

datatype effect =
    Logged log_entry
  | SpawnWorker jsval
  | Terminate
  | ClearTimeout
  | UncaughtTypeError
  | Deliver outcome

fun delivered :: "effect list \<Rightarrow> outcome list" where
  "delivered [] = []"
| "delivered (Deliver x # es) = x # delivered es"
| "delivered (e # es) = delivered es"

fun str :: "string \<Rightarrow> jsval" where
  "str s = Prim (JStr s)"

text \<open>\<^verbatim>\<open>new Error(msg)\<close>.\<close>

definition newError :: "string \<Rightarrow> jsval" where
  "newError msg = Obj True [(''message'', str msg)]"

section \<open>The inline coordinator: \<^verbatim>\<open>ScanService.executeScan\<close>\<close>

text \<open>
  A promise is pending or settled, and settles once: settling a settled promise does
  nothing.
\<close>

datatype promise = Pending | Fulfilled jsval | Rejected jsval

text \<open>
  What can happen to a job after \<^verbatim>\<open>executeScan\<close> has set it up: the promise of
  \<^verbatim>\<open>performScan\<close> fulfils or rejects, and the timer fires.
\<close>

datatype inline_signal = ScanFulfils jsval | ScanRejects jsval | TimerFires

record inline_job =
  scanPromise :: promise
  timeoutPromise :: promise
  racePromise :: promise
  journal :: "effect list"

text \<open>The object the timer callback rejects with.\<close>

definition inlineTimeoutError :: "jsprim \<Rightarrow> jsprim \<Rightarrow> jsval" where
  "inlineTimeoutError scanId timeoutMs =
     Obj False
       [(''code'', str ''SCAN_TIMEOUT''),
        (''message'',
           str (''Scan exceeded maximum execution time of '' @ js_template timeoutMs @ ''ms'')),
        (''scanId'', Prim scanId),
        (''timeoutMs'', Prim timeoutMs)]"

text \<open>
  The test of the \<^verbatim>\<open>catch\<close> block:
  \<^verbatim>\<open>error && typeof error === 'object' && 'code' in error && error.code === 'SCAN_TIMEOUT'\<close>.
\<close>

definition isTimeoutError :: "jsval \<Rightarrow> bool" where
  "isTimeoutError error =
     (truthy error \<and> typeof_object error \<and> js_in ''code'' error
      \<and> js_get error ''code'' = str ''SCAN_TIMEOUT'')"

text \<open>The object the \<^verbatim>\<open>catch\<close> block throws for every other error.\<close>

definition inlineScanError :: "jsprim \<Rightarrow> jsval \<Rightarrow> jsval" where
  "inlineScanError scanId error =
     Obj False
       [(''code'', str ''SCAN_ERROR''),
        (''message'',
           if instanceofError error then js_get error ''message''
           else str ''Unknown scan error''),
        (''scanId'', Prim scanId)]"

text \<open>
  The \<^verbatim>\<open>try\<close>/\<^verbatim>\<open>catch\<close> around \<^verbatim>\<open>await Promise.race([scanPromise, timeoutPromise])\<close>,
  run when the race settles.
\<close>

fun afterRace :: "jsprim \<Rightarrow> promise \<Rightarrow> effect list" where
  "afterRace scanId (Fulfilled result) =
     [Logged (LogInfo (''Scan '' @ js_template scanId @ '' completed successfully'')),
      Deliver (Completed result)]"
| "afterRace scanId (Rejected error) =
     (if isTimeoutError error then [Deliver (Failed error)]
      else [Logged (LogError (''Scan '' @ js_template scanId @ '' failed with error:'') (Some error)),
            Deliver (Failed (inlineScanError scanId error))])"
| "afterRace scanId Pending = []"

text \<open>\<^verbatim>\<open>Promise.race\<close> takes the state of the first of its promises to settle.\<close>

definition raceSettles :: "jsprim \<Rightarrow> promise \<Rightarrow> inline_job \<Rightarrow> inline_job" where
  "raceSettles scanId p job =
     (if racePromise job = Pending
      then job\<lparr>racePromise := p, journal := journal job @ afterRace scanId p\<rparr>
      else job)"

fun inline_step :: "jsprim \<Rightarrow> jsprim \<Rightarrow> inline_job \<Rightarrow> inline_signal \<Rightarrow> inline_job" where
  "inline_step scanId timeoutMs job (ScanFulfils result) =
     (if scanPromise job = Pending
      then raceSettles scanId (Fulfilled result) (job\<lparr>scanPromise := Fulfilled result\<rparr>)
      else job)"
| "inline_step scanId timeoutMs job (ScanRejects error) =
     (if scanPromise job = Pending
      then raceSettles scanId (Rejected error) (job\<lparr>scanPromise := Rejected error\<rparr>)
      else job)"
| "inline_step scanId timeoutMs job TimerFires =
     (if timeoutPromise job = Pending
      then (let error = inlineTimeoutError scanId timeoutMs
            in raceSettles scanId (Rejected error)
                 (job\<lparr>timeoutPromise := Rejected error,
                      journal := journal job @
                        [Logged (LogWarn (''Scan '' @ js_template scanId @ '' timed out after ''
                                          @ js_template timeoutMs @ ''ms''))]\<rparr>))
      else job)"

definition inline_start :: "jsprim \<Rightarrow> jsprim \<Rightarrow> inline_job" where
  "inline_start scanId timeoutMs =
     \<lparr>scanPromise = Pending, timeoutPromise = Pending, racePromise = Pending,
      journal = [Logged (LogInfo (''Starting scan '' @ js_template scanId @ '' with timeout: ''
                                  @ js_template timeoutMs @ ''ms''))]\<rparr>"

text \<open>
  \<^verbatim>\<open>executeScan(contractCode, options)\<close> followed by the signals of the job, in the order
  the runtime sees them.
\<close>

definition executeScan ::
  "ScanService \<Rightarrow> string \<Rightarrow> ScanOptions option \<Rightarrow> string \<Rightarrow> inline_signal list \<Rightarrow> inline_job" where
  "executeScan svc contractCode options generated signals =
     (let timeoutMs = effectiveTimeout svc options;
          scanId = effectiveScanId options generated
      in foldl (inline_step scanId timeoutMs) (inline_start scanId timeoutMs) signals)"

text \<open>
  The placeholder \<^verbatim>\<open>performScan\<close> of the service waits 100 ms and fulfils with this
  result; \<open>now\<close> is \<^verbatim>\<open>Date.now()\<close>, a count of milliseconds.
\<close>

definition performScan :: "string \<Rightarrow> jsprim \<Rightarrow> safe_int \<Rightarrow> jsval" where
  "performScan contractCode scanId now =
     Obj False
       [(''scanId'', Prim scanId),
        (''status'', str ''completed''),
        (''findings'', Arr []),
        (''executionTime'', Prim (JNum now))]"

section \<open>The isolated coordinator: \<^verbatim>\<open>WorkerScanService.executeScanInWorker\<close>\<close>

text \<open>
  The events the promise executor listens to: the timer, a \<^verbatim>\<open>message\<close> from the worker
  (the posted value), an \<^verbatim>\<open>error\<close> of the worker (the value that was thrown there and not
  caught, whatever it is), and its \<^verbatim>\<open>exit\<close> with a code.
\<close>

datatype worker_signal =
    TimerFire
  | Message jsval
  | WorkerError jsval
  | WorkerExit int

record worker_job =
  isResolved :: bool
  timeoutCleared :: bool
  wjournal :: "effect list"

definition workerTimeoutError :: "jsprim \<Rightarrow> jsprim \<Rightarrow> jsval" where
  "workerTimeoutError scanId timeoutMs =
     Obj False
       [(''code'', str ''SCAN_TIMEOUT''),
        (''message'',
           str (''Worker scan exceeded maximum execution time of ''
                @ js_template timeoutMs @ ''ms'')),
        (''scanId'', Prim scanId),
        (''timeoutMs'', Prim timeoutMs)]"

text \<open>
  The object literal in the \<^verbatim>\<open>error\<close> handler reads \<^verbatim>\<open>error.message\<close>: when the error is
  \<^verbatim>\<open>null\<close> or \<^verbatim>\<open>undefined\<close> this throws, and there is no object (\<open>None\<close>).
\<close>

definition workerErrorError :: "jsprim \<Rightarrow> jsval \<Rightarrow> jsval option" where
  "workerErrorError scanId error =
     (if nullish error then None
      else Some (Obj False
             [(''code'', str ''SCAN_ERROR''),
              (''message'', js_get error ''message''),
              (''scanId'', Prim scanId),
              (''details'', error)]))"

definition workerExitError :: "jsprim \<Rightarrow> int \<Rightarrow> jsval" where
  "workerExitError scanId code =
     Obj False
       [(''code'', str ''SCAN_ERROR''),
        (''message'', str (''Worker exited unexpectedly with code '' @ show_int code)),
        (''scanId'', Prim scanId)]"

text \<open>
  The four handlers. A timer that \<^verbatim>\<open>clearTimeout\<close> has cleared never runs its callback.
  The \<^verbatim>\<open>message\<close> and \<^verbatim>\<open>error\<close> handlers set \<^verbatim>\<open>isResolved\<close> and clear the timer first;
  when the test \<^verbatim>\<open>'code' in result\<close> or the object literal then throws, the handler ends
  there, with neither \<^verbatim>\<open>resolve\<close> nor \<^verbatim>\<open>reject\<close> called.
\<close>

fun worker_step :: "jsprim \<Rightarrow> jsprim \<Rightarrow> worker_job \<Rightarrow> worker_signal \<Rightarrow> worker_job" where
  "worker_step scanId timeoutMs job TimerFire =
     (if timeoutCleared job then job
      else if \<not> isResolved job
      then job\<lparr>isResolved := True,
               wjournal := wjournal job @
                 [Terminate,
                  Logged (LogWarn (''Worker scan '' @ js_template scanId @ '' timed out after ''
                                   @ js_template timeoutMs @ ''ms'')),
                  Deliver (Failed (workerTimeoutError scanId timeoutMs))]\<rparr>
      else job)"
| "worker_step scanId timeoutMs job (Message result) =
     (if \<not> isResolved job
      then job\<lparr>isResolved := True, timeoutCleared := True,
               wjournal := wjournal job @ ClearTimeout #
                 (if \<not> is_object result then [UncaughtTypeError]
                  else if js_in ''code'' result \<and> truthy (js_get result ''code'')
                  then [Logged (LogError (''Worker scan '' @ js_template scanId @ '' failed:'')
                                  (Some result)),
                        Deliver (Failed result)]
                  else [Logged (LogInfo (''Worker scan '' @ js_template scanId
                                         @ '' completed successfully'')),
                        Deliver (Completed result)])\<rparr>
      else job)"
| "worker_step scanId timeoutMs job (WorkerError error) =
     (if \<not> isResolved job
      then job\<lparr>isResolved := True, timeoutCleared := True,
               wjournal := wjournal job @
                 [ClearTimeout,
                  Logged (LogError (''Worker scan '' @ js_template scanId
                                    @ '' encountered an error:'') (Some error))] @
                 (case workerErrorError scanId error of
                    None \<Rightarrow> [UncaughtTypeError]
                  | Some e \<Rightarrow> [Deliver (Failed e)])\<rparr>
      else job)"
| "worker_step scanId timeoutMs job (WorkerExit code) =
     (if \<not> isResolved job \<and> code \<noteq> 0
      then job\<lparr>isResolved := True, timeoutCleared := True,
               wjournal := wjournal job @
                 [ClearTimeout,
                  Logged (LogError (''Worker scan '' @ js_template scanId @ '' exited with code ''
                                    @ show_int code) None),
                  Deliver (Failed (workerExitError scanId code))]\<rparr>
      else job)"

definition workerData :: "string \<Rightarrow> jsprim \<Rightarrow> jsval" where
  "workerData contractCode scanId =
     Obj False [(''contractCode'', str contractCode), (''scanId'', Prim scanId)]"

definition worker_start :: "string \<Rightarrow> jsprim \<Rightarrow> jsprim \<Rightarrow> worker_job" where
  "worker_start contractCode scanId timeoutMs =
     \<lparr>isResolved = False, timeoutCleared = False,
      wjournal = [Logged (LogInfo (''Starting worker scan '' @ js_template scanId
                                   @ '' with timeout: '' @ js_template timeoutMs @ ''ms'')),
                  SpawnWorker (workerData contractCode scanId)]\<rparr>"

definition executeScanInWorker ::
  "ScanService \<Rightarrow> string \<Rightarrow> ScanOptions option \<Rightarrow> string \<Rightarrow> worker_signal list \<Rightarrow> worker_job" where
  "executeScanInWorker svc contractCode options generated signals =
     (let timeoutMs = effectiveTimeout svc options;
          scanId = effectiveScanId options generated
      in foldl (worker_step scanId timeoutMs) (worker_start contractCode scanId timeoutMs) signals)"

text \<open>
  The signals whose handler acts on an unresolved job, and so compete for it: every signal
  but the exit with code 0 (the \<^verbatim>\<open>exit\<close> handler tests \<^verbatim>\<open>code !== 0\<close>).
\<close>

fun competing :: "worker_signal \<Rightarrow> bool" where
  "competing (WorkerExit code) = (code \<noteq> 0)"
| "competing s = True"

text \<open>
  The signals on which a handler throws before it settles the promise: a message that is
  not an object, and an error that is \<^verbatim>\<open>null\<close> or \<^verbatim>\<open>undefined\<close>. The handlers declare a
  \<^verbatim>\<open>ScanResult | ScanError\<close> and an \<^verbatim>\<open>Error\<close>, which are objects.
\<close>

fun throwing :: "worker_signal \<Rightarrow> bool" where
  "throwing (Message result) = (\<not> is_object result)"
| "throwing (WorkerError error) = nullish error"
| "throwing s = False"

section \<open>Time\<close>






section \<open>The execution unit: \<^verbatim>\<open>workers/scan.worker.ts\<close>\<close>

text \<open>
  What the script runs in: whether \<^verbatim>\<open>parentPort\<close> is there, the clock, and the two
  operations that can throw. The analysis itself is a placeholder delay which the
  script's comments announce will be replaced by the analysis engine, so its behaviour is
  an argument: it completes (\<open>None\<close>) or throws a value. \<^verbatim>\<open>parentPort.postMessage(m)\<close>
  delivers \<open>m\<close> (\<open>None\<close>) or throws (a message that cannot be cloned). The argument
  \<open>wd\<close> is \<^verbatim>\<open>workerData\<close>, the object the coordinator passes at spawn time.
\<close>

record worker_env =
  parentPort :: bool
  analysis :: "jsval option"
  postMessage :: "jsval \<Rightarrow> jsval option"
  clock :: safe_int

text \<open>
  The structured clone of \<^verbatim>\<open>postMessage\<close> refuses a value that holds a function and
  throws a \<^verbatim>\<open>DataCloneError\<close> (an \<^verbatim>\<open>Error\<close> instance, whose text is an argument here).
\<close>

fun cloneable :: "jsval \<Rightarrow> bool" where
  "cloneable (Prim p) = True"
| "cloneable (Obj e ps) = list_all (\<lambda>kv. cloneable (snd kv)) ps"
| "cloneable (Arr xs) = list_all cloneable xs"
| "cloneable Fun = False"

definition cloningPostMessage :: "string \<Rightarrow> jsval \<Rightarrow> jsval option" where
  "cloningPostMessage text m = (if cloneable m then None else Some (newError text))"

text \<open>A block either ends normally, having posted some messages, or throws.\<close>

datatype completion = Normal "jsval list" | Throws jsval

text \<open>The \<^verbatim>\<open>try\<close> block of the worker's \<^verbatim>\<open>performScan\<close>.\<close>

definition worker_try :: "worker_env \<Rightarrow> jsval \<Rightarrow> completion" where
  "worker_try env wd =
     (if \<not> parentPort env then Throws (newError ''Worker must be run in a worker thread context'')
      else case analysis env of
        Some error \<Rightarrow> Throws error
      | None \<Rightarrow>
          (let result = Obj False
                 [(''scanId'', js_get wd ''scanId''),
                  (''status'', str ''completed''),
                  (''findings'', Arr []),
                  (''executionTime'', Prim (JNum (clock env)))]
           in case postMessage env result of
                None \<Rightarrow> Normal [result]
              | Some e \<Rightarrow> Throws e))"

text \<open>The object built by the \<^verbatim>\<open>catch\<close> block of \<^verbatim>\<open>performScan\<close>.\<close>

definition worker_catch_result :: "jsval \<Rightarrow> jsval \<Rightarrow> jsval" where
  "worker_catch_result wd error =
     Obj False
       [(''code'', str ''SCAN_ERROR''),
        (''message'',
           if instanceofError error then js_get error ''message''
           else str ''Unknown error in worker''),
        (''scanId'', js_get wd ''scanId''),
        (''details'', error)]"

definition worker_performScan :: "worker_env \<Rightarrow> jsval \<Rightarrow> completion" where
  "worker_performScan env wd =
     (case worker_try env wd of
        Normal ms \<Rightarrow> Normal ms
      | Throws error \<Rightarrow>
          (let errorResult = worker_catch_result wd error
           in if parentPort env
              then (case postMessage env errorResult of
                      None \<Rightarrow> Normal [errorResult]
                    | Some e \<Rightarrow> Throws e)
              else Normal []))"

text \<open>
  The object built by the handler of \<^verbatim>\<open>performScan().catch(...)\<close> at the end of the
  script: it has no \<^verbatim>\<open>scanId\<close>.
\<close>

definition worker_fatal_result :: "jsval \<Rightarrow> jsval" where
  "worker_fatal_result error =
     Obj False
       [(''code'', str ''SCAN_ERROR''),
        (''message'',
           if instanceofError error then js_get error ''message''
           else str ''Fatal error in worker''),
        (''details'', error)]"

text \<open>
  The whole script: the messages that reach the coordinator, and the error the last
  handler itself throws, if any.
\<close>

definition worker_main :: "worker_env \<Rightarrow> jsval \<Rightarrow> jsval list \<times> jsval option" where
  "worker_main env wd =
     (case worker_performScan env wd of
        Normal ms \<Rightarrow> (ms, None)
      | Throws error \<Rightarrow>
          (let errorResult = worker_fatal_result error
           in if parentPort env
              then (case postMessage env errorResult of
                      None \<Rightarrow> ([errorResult], None)
                    | Some e \<Rightarrow> ([], Some e))
              else ([], None)))"

text \<open>A posted value arrives as a \<^verbatim>\<open>message\<close> event carrying it.\<close>

fun as_message :: "jsval \<Rightarrow> worker_signal list" where
  "as_message v = [Message v]"

section \<open>Properties of the deadline policy\<close>

lemma resolve_inline_eq: "resolve_inline ov d = js_or ov (js_or d (JNum 30000))"
  by (simp add: resolve_inline_def effectiveTimeout_def ScanService_constructor_def
      config_with_def options_timeoutMs_def Let_def)

lemma resolve_worker_eq: "resolve_worker ov d = js_or ov (js_or d (JNum 30000))"
  by (simp add: resolve_worker_def effectiveTimeout_def WorkerScanService_constructor_def
      config_with_def options_timeoutMs_def Let_def)

text \<open>
  Claim C1, as the spec states it, asks that a non-positive override is ignored, so that
  \<^verbatim>\<open>resolve(-1, 15000, 30000)\<close> is 15000. The code picks the override with \<^verbatim>\<open>||\<close>, and
  \<^verbatim>\<open>-1\<close> is truthy: in both coordinators the effective timeout is then \<^verbatim>\<open>-1\<close>, not 15000.
\<close>

theorem C1_counterexample:
  "resolve_inline (JNum (- 1)) (JNum 15000) \<noteq> JNum 15000
   \<and> resolve_worker (JNum (- 1)) (JNum 15000) \<noteq> JNum 15000"
  by (simp add: resolve_inline_eq resolve_worker_eq js_or_def)

text \<open>
  Claim C1, amended: the effective timeout is resolved by precedence on truthiness. A
  truthy per-job override wins (every number but 0 and \<^verbatim>\<open>NaN\<close>, the negative ones
  included, and every non-empty string); else the configured default when it is truthy;
  else the fallback 30000. So \<^verbatim>\<open>resolve(500, 30000, 30000) = 500\<close>,
  \<^verbatim>\<open>resolve(undefined, 15000, 30000) = 15000\<close>,
  \<^verbatim>\<open>resolve(undefined, undefined, 30000) = 30000\<close>, \<^verbatim>\<open>resolve(0, 15000, 30000) = 15000\<close>
  and \<^verbatim>\<open>resolve(-1, 15000, 30000) = -1\<close>, for the inline and for the isolated coordinator.
\<close>

theorem C1_deadline_policy:
  "resolve_inline ov d = (if truthy_prim ov then ov else if truthy_prim d then d else JNum 30000)
   \<and> resolve_worker ov d = (if truthy_prim ov then ov else if truthy_prim d then d else JNum 30000)
   \<and> resolve_inline (JNum 500) (JNum 30000) = JNum 500
   \<and> resolve_inline JUndefined (JNum 15000) = JNum 15000
   \<and> resolve_inline JUndefined JUndefined = JNum 30000
   \<and> resolve_inline (JNum 0) (JNum 15000) = JNum 15000
   \<and> resolve_inline (JNum (- 1)) (JNum 15000) = JNum (- 1)
   \<and> resolve_worker (JNum 500) (JNum 30000) = JNum 500
   \<and> resolve_worker JUndefined (JNum 15000) = JNum 15000
   \<and> resolve_worker JUndefined JUndefined = JNum 30000
   \<and> resolve_worker (JNum 0) (JNum 15000) = JNum 15000
   \<and> resolve_worker (JNum (- 1)) (JNum 15000) = JNum (- 1)"
  by (simp add: resolve_inline_eq resolve_worker_eq js_or_def)

text \<open>
  Claim C6, as the spec states it, asks for the fallback 30000 whenever the setting is
  non-positive. A setting of \<^verbatim>\<open>-5\<close> is truthy, and both constructors keep it.
\<close>

theorem C6_counterexample:
  "maxExecutionTime (fst (ScanService_constructor (config_with (JNum (- 5))))) \<noteq> JNum 30000
   \<and> maxExecutionTime (fst (WorkerScanService_constructor (config_with (JNum (- 5)))))
       \<noteq> JNum 30000"
  by (simp add: ScanService_constructor_def WorkerScanService_constructor_def config_with_def
      js_or_def Let_def)

text \<open>
  Claim C6, amended: the process-wide default is read by the constructor from the one
  setting \<^verbatim>\<open>SCAN_MAX_EXECUTION_TIME_MS\<close> and depends on nothing else; when the setting
  is absent or falsy (\<^verbatim>\<open>undefined\<close>, 0, \<^verbatim>\<open>NaN\<close>, the empty string) both coordinators use
  the fallback 30000, and every other value, a negative number included, is kept as it
  is.
\<close>

theorem C6_default_timeout:
  "maxExecutionTime (fst (ScanService_constructor configService)) =
     (if truthy_prim (configService ''SCAN_MAX_EXECUTION_TIME_MS'')
      then configService ''SCAN_MAX_EXECUTION_TIME_MS'' else JNum 30000)
   \<and> maxExecutionTime (fst (WorkerScanService_constructor configService)) =
     (if truthy_prim (configService ''SCAN_MAX_EXECUTION_TIME_MS'')
      then configService ''SCAN_MAX_EXECUTION_TIME_MS'' else JNum 30000)
   \<and> maxExecutionTime (fst (ScanService_constructor (config_with JUndefined))) = JNum 30000
   \<and> maxExecutionTime (fst (WorkerScanService_constructor (config_with JUndefined))) = JNum 30000
   \<and> maxExecutionTime (fst (ScanService_constructor (config_with (JNum 0)))) = JNum 30000
   \<and> maxExecutionTime (fst (WorkerScanService_constructor (config_with (JNum 0)))) = JNum 30000
   \<and> maxExecutionTime (fst (ScanService_constructor (config_with (JNum (- 5))))) = JNum (- 5)
   \<and> maxExecutionTime (fst (WorkerScanService_constructor (config_with (JNum (- 5)))))
       = JNum (- 5)"
  by (simp add: ScanService_constructor_def WorkerScanService_constructor_def config_with_def
      js_or_def Let_def)

section \<open>Races\<close>

lemma delivered_append: "delivered (xs @ ys) = delivered xs @ delivered ys"
  by (induction xs rule: delivered.induct) simp_all

subsection \<open>The inline job\<close>

text \<open>
  The first signal settles the race and delivers one outcome; once the race is settled no
  signal delivers another one.
\<close>

lemma isTimeoutError_inlineTimeoutError: "isTimeoutError (inlineTimeoutError sid t)"
  by (simp add: isTimeoutError_def inlineTimeoutError_def)

lemma inline_start_pending:
  "scanPromise (inline_start sid t) = Pending"
  "timeoutPromise (inline_start sid t) = Pending"
  "racePromise (inline_start sid t) = Pending"
  "delivered (journal (inline_start sid t)) = []"
  by (simp_all add: inline_start_def)

lemma inline_first_fulfils:
  "racePromise (inline_step sid t (inline_start sid t) (ScanFulfils r)) \<noteq> Pending"
  "delivered (journal (inline_step sid t (inline_start sid t) (ScanFulfils r))) = [Completed r]"
  by (simp_all add: inline_start_def raceSettles_def delivered_append)

lemma inline_first_rejects:
  "racePromise (inline_step sid t (inline_start sid t) (ScanRejects e)) \<noteq> Pending"
  "delivered (journal (inline_step sid t (inline_start sid t) (ScanRejects e))) =
     [if isTimeoutError e then Failed e else Failed (inlineScanError sid e)]"
  by (simp_all add: inline_start_def raceSettles_def delivered_append)

lemma inline_first_timer:
  "racePromise (inline_step sid t (inline_start sid t) TimerFires) \<noteq> Pending"
  "delivered (journal (inline_step sid t (inline_start sid t) TimerFires)) =
     [Failed (inlineTimeoutError sid t)]"
  by (simp_all add: inline_start_def raceSettles_def delivered_append Let_def
      isTimeoutError_inlineTimeoutError)

lemma inline_step_settled:
  "racePromise job \<noteq> Pending \<Longrightarrow>
   racePromise (inline_step sid t job s) \<noteq> Pending
   \<and> delivered (journal (inline_step sid t job s)) = delivered (journal job)"
  by (cases s) (simp_all add: raceSettles_def Let_def delivered_append)

lemma inline_foldl_settled:
  "racePromise job \<noteq> Pending \<Longrightarrow>
   delivered (journal (foldl (inline_step sid t) job ss)) = delivered (journal job)"
proof (induction ss arbitrary: job)
  case Nil
  show ?case by simp
next
  case (Cons s ss)
  from Cons.prems inline_step_settled [of job sid t s]
  have a: "racePromise (inline_step sid t job s) \<noteq> Pending"
    and b: "delivered (journal (inline_step sid t job s)) = delivered (journal job)"
    by simp_all
  from Cons.IH [OF a] b show ?case by simp
qed

lemma inline_first_any:
  "racePromise (inline_step sid t (inline_start sid t) s) \<noteq> Pending
   \<and> length (delivered (journal (inline_step sid t (inline_start sid t) s))) = 1"
  by (cases s) (simp_all only: inline_first_fulfils inline_first_rejects inline_first_timer,
      simp_all)

lemma inline_run_cons:
  "delivered (journal (executeScan svc code opts g (s # post))) =
   delivered (journal (inline_step (effectiveScanId opts g) (effectiveTimeout svc opts)
      (inline_start (effectiveScanId opts g) (effectiveTimeout svc opts)) s))"
  using inline_first_any [of "effectiveScanId opts g" "effectiveTimeout svc opts" s]
  by (simp add: executeScan_def Let_def inline_foldl_settled)

subsection \<open>The isolated job\<close>

text \<open>
  A resolved job ignores every signal; an exit with code 0 changes nothing; any other
  signal resolves an unresolved job, whose timer is still armed, and delivers one outcome
  unless its handler throws.
\<close>

lemma worker_step_resolved: "isResolved job \<Longrightarrow> worker_step sid t job s = job"
  by (cases s) simp_all

lemma worker_foldl_resolved: "isResolved job \<Longrightarrow> foldl (worker_step sid t) job ss = job"
  by (induction ss) (simp_all add: worker_step_resolved)

lemma worker_foldl_exit0: "foldl (worker_step sid t) job (replicate n (WorkerExit 0)) = job"
  by (induction n) simp_all

lemma noncompeting: "\<not> competing s \<Longrightarrow> s = WorkerExit 0"
  by (cases s) simp_all

lemma worker_foldl_noncompeting:
  "list_all (\<lambda>x. \<not> competing x) pre \<Longrightarrow> foldl (worker_step sid t) job pre = job"
  by (induction pre) (auto dest: noncompeting)

lemma worker_start_fresh:
  "\<not> isResolved (worker_start code sid t)"
  "\<not> timeoutCleared (worker_start code sid t)"
  "delivered (wjournal (worker_start code sid t)) = []"
  by (simp_all add: worker_start_def)

lemma worker_step_competing:
  "\<not> isResolved job \<Longrightarrow> \<not> timeoutCleared job \<Longrightarrow> competing s \<Longrightarrow>
   isResolved (worker_step sid t job s)"
  by (cases s) simp_all

lemma worker_step_delivers:
  "\<not> isResolved job \<Longrightarrow> \<not> timeoutCleared job \<Longrightarrow> competing s \<Longrightarrow> \<not> throwing s \<Longrightarrow>
   length (delivered (wjournal (worker_step sid t job s))) = Suc (length (delivered (wjournal job)))"
  by (cases s) (simp_all add: delivered_append workerErrorError_def)

lemma worker_step_at_most:
  "length (delivered (wjournal (worker_step sid t job s))) \<le> Suc (length (delivered (wjournal job)))"
  by (cases s) (simp_all add: delivered_append workerErrorError_def)

lemma worker_step_inv:
  assumes "if isResolved job then length (delivered (wjournal job)) \<le> 1
           else delivered (wjournal job) = [] \<and> \<not> timeoutCleared job"
  shows "if isResolved (worker_step sid t job s)
         then length (delivered (wjournal (worker_step sid t job s))) \<le> 1
         else delivered (wjournal (worker_step sid t job s)) = []
              \<and> \<not> timeoutCleared (worker_step sid t job s)"
proof (cases "isResolved job")
  case True
  with assms show ?thesis by (simp add: worker_step_resolved)
next
  case False
  with assms have fresh: "delivered (wjournal job) = []" "\<not> timeoutCleared job" by simp_all
  show ?thesis
  proof (cases "competing s")
    case True
    with worker_step_competing [OF False fresh(2), of s sid t]
      worker_step_at_most [of sid t job s] fresh(1) show ?thesis by simp
  next
    case False
    then have "s = WorkerExit 0" by (rule noncompeting)
    with \<open>\<not> isResolved job\<close> fresh show ?thesis by simp
  qed
qed

lemma worker_foldl_inv:
  "(if isResolved job then length (delivered (wjournal job)) \<le> 1
    else delivered (wjournal job) = [] \<and> \<not> timeoutCleared job) \<Longrightarrow>
   (if isResolved (foldl (worker_step sid t) job ss)
    then length (delivered (wjournal (foldl (worker_step sid t) job ss))) \<le> 1
    else delivered (wjournal (foldl (worker_step sid t) job ss)) = []
         \<and> \<not> timeoutCleared (foldl (worker_step sid t) job ss))"
proof (induction ss arbitrary: job)
  case Nil
  then show ?case by (simp split: if_splits)
next
  case (Cons s ss)
  from Cons.IH [OF worker_step_inv [OF Cons.prems, of sid t s]] show ?case
    by (simp split: if_splits)
qed

lemma worker_run_at_most_one:
  "length (delivered (wjournal (executeScanInWorker svc code opts g ws))) \<le> 1"
proof -
  let ?sid = "effectiveScanId opts g" and ?t = "effectiveTimeout svc opts"
  have "if isResolved (worker_start code ?sid ?t)
        then length (delivered (wjournal (worker_start code ?sid ?t))) \<le> 1
        else delivered (wjournal (worker_start code ?sid ?t)) = []
             \<and> \<not> timeoutCleared (worker_start code ?sid ?t)"
    by (simp add: worker_start_fresh)
  from worker_foldl_inv [OF this, of ?sid ?t ws] show ?thesis
    by (simp add: executeScanInWorker_def Let_def split: if_splits)
qed

lemma worker_run_decided:
  assumes "list_all (\<lambda>x. \<not> competing x) pre" "competing w"
  shows "executeScanInWorker svc code opts g (pre @ w # post) =
         worker_step (effectiveScanId opts g) (effectiveTimeout svc opts)
           (worker_start code (effectiveScanId opts g) (effectiveTimeout svc opts)) w"
proof -
  let ?sid = "effectiveScanId opts g" and ?t = "effectiveTimeout svc opts"
  have r: "isResolved (worker_step ?sid ?t (worker_start code ?sid ?t) w)"
    using worker_step_competing [of "worker_start code ?sid ?t" w ?sid ?t] assms(2)
    by (simp add: worker_start_fresh)
  show ?thesis
    by (simp add: executeScanInWorker_def Let_def worker_foldl_noncompeting [OF assms(1)]
        worker_foldl_resolved [OF r])
qed

lemma worker_run_exit0_then:
  assumes "competing w"
  shows "executeScanInWorker svc code opts g (replicate n (WorkerExit 0) @ w # post) =
         worker_step (effectiveScanId opts g) (effectiveTimeout svc opts)
           (worker_start code (effectiveScanId opts g) (effectiveTimeout svc opts)) w"
proof -
  have "list_all (\<lambda>x. \<not> competing x) (replicate n (WorkerExit 0))"
    by (induction n) simp_all
  from worker_run_decided [OF this assms] show ?thesis .
qed

lemma worker_run_first:
  assumes "competing w"
  shows "executeScanInWorker svc code opts g (w # post) =
         worker_step (effectiveScanId opts g) (effectiveTimeout svc opts)
           (worker_start code (effectiveScanId opts g) (effectiveTimeout svc opts)) w"
  using worker_run_decided [of "[]" w svc code opts g post] assms by simp

subsection \<open>Runs in time\<close>


lemma effectiveTimeout_cases:
  "effectiveTimeout svc opts =
     (case opts of None \<Rightarrow> maxExecutionTime svc
      | Some o' \<Rightarrow> if truthy_prim (opt_timeoutMs o') then opt_timeoutMs o'
                  else maxExecutionTime svc)"
  by (simp add: effectiveTimeout_def options_timeoutMs_def js_or_def split: option.splits)

lemma effectiveScanId_cases:
  "effectiveScanId opts g =
     (case opts of None \<Rightarrow> JStr g
      | Some o' \<Rightarrow> if truthy_prim (opt_scanId o') then opt_scanId o' else JStr g)"
  by (simp add: effectiveScanId_def options_scanId_def js_or_def split: option.splits)

lemma inline_timer_first:
  "delivered (journal (executeScan svc code opts g (TimerFires # post))) =
     [Failed (inlineTimeoutError (effectiveScanId opts g) (effectiveTimeout svc opts))]"
  by (simp only: inline_run_cons inline_first_timer)

lemma worker_timer_first:
  "delivered (wjournal (executeScanInWorker svc code opts g
        (replicate n (WorkerExit 0) @ TimerFire # wpost))) =
     [Failed (workerTimeoutError (effectiveScanId opts g) (effectiveTimeout svc opts))]"
  by (simp add: worker_run_exit0_then worker_start_def delivered_append)

section \<open>Exactly one outcome\<close>

text \<open>
  Claim C2, as the spec states it, asks for exactly one outcome for every job, whatever
  signals fire. In the isolated coordinator the \<^verbatim>\<open>error\<close> handler sets \<^verbatim>\<open>isResolved\<close>, clears
  the timer and then reads \<^verbatim>\<open>error.message\<close>: for an \<^verbatim>\<open>error\<close> event that carries \<^verbatim>\<open>null\<close>
  the read throws, \<^verbatim>\<open>reject\<close> is never called, and the timer and the exit that follow find
  the job resolved. The \<^verbatim>\<open>message\<close> handler does the same at \<^verbatim>\<open>'code' in result\<close> for a
  message that is a string. No outcome is delivered.
\<close>

theorem C2_counterexample:
  "delivered (wjournal (executeScanInWorker \<lparr>maxExecutionTime = JNum 30000\<rparr> ''contract'' None
      ''worker_scan_1'' [WorkerError (Prim JNull), TimerFire, WorkerExit 1])) = []
   \<and> delivered (wjournal (executeScanInWorker \<lparr>maxExecutionTime = JNum 30000\<rparr> ''contract'' None
      ''worker_scan_1'' [Message (Prim (JStr ''done'')), TimerFire, WorkerExit 0])) = []"
  by (simp add: executeScanInWorker_def worker_start_def workerErrorError_def Let_def)

text \<open>
  Claim C2, amended: in both modes the caller never observes more than one outcome,
  however many signals fire, and once a signal has resolved the job every later signal is
  ignored. Inline: before any signal nothing is delivered; the first signal, whichever it
  is, delivers the one outcome, and whatever follows delivers nothing more. Isolated: no
  sequence of signals delivers more than one outcome; the first competing signal (a
  message, an error, an exit with a non-zero code, the timer) decides, the exits with code
  0 before it change nothing and the signals after it leave the whole job as it was; and
  when that signal is one its handler is declared for (a message that is an object, an
  error that is not \<^verbatim>\<open>null\<close> or \<^verbatim>\<open>undefined\<close>, an exit, the timer) exactly one outcome is
  delivered. So a sequence of such signals in which a competing one occurs, as the timer
  does in every run that lasts beyond the deadline, delivers exactly one outcome.
\<close>

theorem C2_exactly_one_outcome:
  "delivered (journal (executeScan svc code opts g [])) = []
   \<and> length (delivered (journal (executeScan svc code opts g (s # post)))) = 1
   \<and> delivered (journal (executeScan svc code opts g (s # post)))
       = delivered (journal (executeScan svc code opts g [s]))
   \<and> length (delivered (wjournal (executeScanInWorker svc code opts g ws))) \<le> 1
   \<and> (list_ex competing ws \<and> list_all (\<lambda>x. \<not> throwing x) ws \<longrightarrow>
        length (delivered (wjournal (executeScanInWorker svc code opts g ws))) = 1)
   \<and> (list_all (\<lambda>x. \<not> competing x) pre \<and> competing w \<longrightarrow>
        executeScanInWorker svc code opts g (pre @ w # wpost)
          = executeScanInWorker svc code opts g [w])
   \<and> (list_all (\<lambda>x. \<not> competing x) pre \<and> competing w \<and> \<not> throwing w \<longrightarrow>
        length (delivered (wjournal (executeScanInWorker svc code opts g (pre @ w # wpost)))) = 1)"
proof -
  let ?sid = "effectiveScanId opts g" and ?t = "effectiveTimeout svc opts"
  have a: "delivered (journal (executeScan svc code opts g [])) = []"
    by (simp add: executeScan_def Let_def inline_start_pending)
  have b: "length (delivered (journal (executeScan svc code opts g (s # post)))) = 1"
    using inline_first_any [of ?sid ?t s] by (simp add: inline_run_cons)
  have c: "delivered (journal (executeScan svc code opts g (s # post)))
       = delivered (journal (executeScan svc code opts g [s]))"
    by (simp only: inline_run_cons)
  have d: "length (delivered (wjournal (executeScanInWorker svc code opts g ws))) \<le> 1"
    by (rule worker_run_at_most_one)
  have e: "executeScanInWorker svc code opts g (pre @ w # wpost)
            = executeScanInWorker svc code opts g [w]"
    if h: "list_all (\<lambda>x. \<not> competing x) pre" "competing w" for pre w wpost
    by (simp add: worker_run_decided [OF h] worker_run_first [OF h(2), of svc code opts g "[]"])
  have f: "length (delivered (wjournal (executeScanInWorker svc code opts g (pre @ w # wpost)))) = 1"
    if h: "list_all (\<lambda>x. \<not> competing x) pre" "competing w" "\<not> throwing w" for pre w wpost
  proof -
    have "length (delivered (wjournal (worker_step ?sid ?t (worker_start code ?sid ?t) w))) = 1"
      using worker_step_delivers [of "worker_start code ?sid ?t" w ?sid ?t] h(2,3)
      by (simp add: worker_start_fresh)
    then show ?thesis
      by (simp add: worker_run_decided [OF h(1,2)])
  qed
  have k: "length (delivered (wjournal (executeScanInWorker svc code opts g ws))) = 1"
    if h: "list_ex competing ws" "list_all (\<lambda>x. \<not> throwing x) ws"
  proof -
    from h(1) have "\<exists>x\<in>set ws. competing x" by (simp add: list_ex_iff)
    then obtain ys x zs where ws: "ws = ys @ x # zs" and x: "competing x"
      and ys: "\<forall>y\<in>set ys. \<not> competing y"
      by (rule split_list_first_propE)
    from ys have p: "list_all (\<lambda>x. \<not> competing x) ys" by (simp add: list_all_iff)
    from h(2) have "\<not> throwing x" by (simp add: ws)
    from f [OF p x this, of zs] show ?thesis by (simp add: ws)
  qed
  from a b c d e f k show ?thesis by blast
qed

text \<open>
  Claim C2 at concrete runs: the placeholder scan fulfils and the timer fires later
  (inline); the worker exits with code 0, the timer fires, and the exit and error that
  follow the termination are ignored (isolated).
\<close>

theorem C2_exactly_one_outcome_witness:
  "list_ex competing [WorkerExit 0, TimerFire, WorkerExit 1, WorkerError (newError ''late'')]
   \<and> list_all (\<lambda>x. \<not> throwing x)
        [WorkerExit 0, TimerFire, WorkerExit 1, WorkerError (newError ''late'')]
   \<and> list_all (\<lambda>x. \<not> competing x) [WorkerExit 0] \<and> competing TimerFire
   \<and> \<not> throwing TimerFire
   \<and> length (delivered (journal (executeScan \<lparr>maxExecutionTime = JNum 30000\<rparr> ''contract''
        None ''scan_1''
        (ScanFulfils (performScan ''contract'' (JStr ''scan_1'') 1700000000000)
         # [TimerFires])))) = 1
   \<and> length (delivered (wjournal (executeScanInWorker \<lparr>maxExecutionTime = JNum 30000\<rparr>
        ''contract'' None ''scan_1''
        [WorkerExit 0, TimerFire, WorkerExit 1, WorkerError (newError ''late'')]))) = 1
   \<and> executeScanInWorker \<lparr>maxExecutionTime = JNum 30000\<rparr> ''contract'' None ''scan_1''
        ([WorkerExit 0] @ TimerFire # [WorkerExit 1, WorkerError (newError ''late'')])
       = executeScanInWorker \<lparr>maxExecutionTime = JNum 30000\<rparr> ''contract'' None ''scan_1''
           [TimerFire]"
proof -
  have h: "list_ex competing [WorkerExit 0, TimerFire, WorkerExit 1, WorkerError (newError ''late'')]
   \<and> list_all (\<lambda>x. \<not> throwing x)
        [WorkerExit 0, TimerFire, WorkerExit 1, WorkerError (newError ''late'')]
   \<and> list_all (\<lambda>x. \<not> competing x) [WorkerExit 0] \<and> competing TimerFire
   \<and> \<not> throwing TimerFire"
    by (simp add: newError_def)
  note t = C2_exactly_one_outcome [of "\<lparr>maxExecutionTime = JNum 30000\<rparr>" "''contract''" None
      "''scan_1''" "ScanFulfils (performScan ''contract'' (JStr ''scan_1'') 1700000000000)"
      "[TimerFires]" "[WorkerExit 0, TimerFire, WorkerExit 1, WorkerError (newError ''late'')]"
      "[WorkerExit 0]" TimerFire "[WorkerExit 1, WorkerError (newError ''late'')]"]
  from t h show ?thesis by blast
qed

section \<open>Timeouts\<close>

text \<open>
  Claim C3: when the timer is the first signal to resolve the job, the only outcome is a
  rejection with the object \<^verbatim>\<open>{ code: 'SCAN_TIMEOUT', message, scanId, timeoutMs }\<close>.
  \<^verbatim>\<open>timeoutMs\<close> is the effective timeout: the override of the call when there is one and
  it is truthy, the default of the service otherwise. \<^verbatim>\<open>scanId\<close> is the job's id: the id of
  the call when there is one and it is truthy, the generated id otherwise. The message
  holds the effective timeout as \<^verbatim>\<open>String\<close> prints it, followed by \<^verbatim>\<open>ms\<close>. This holds
  inline, and in the isolated coordinator also after exits with code 0. Instances: a call
  without options on a service whose default is 30000; an override of 500 with an id; an
  override of 0, which falls to the default; the override \<^verbatim>\<open>1e21\<close>.
\<close>

theorem C3_timeout_outcome:
  "delivered (journal (executeScan svc code opts g (TimerFires # post))) =
     [Failed (Obj False
        [(''code'', str ''SCAN_TIMEOUT''),
         (''message'', str (''Scan exceeded maximum execution time of '' @ js_template
             (case opts of None \<Rightarrow> maxExecutionTime svc
              | Some o' \<Rightarrow> if truthy_prim (opt_timeoutMs o') then opt_timeoutMs o'
                          else maxExecutionTime svc) @ ''ms'')),
         (''scanId'', Prim
             (case opts of None \<Rightarrow> JStr g
              | Some o' \<Rightarrow> if truthy_prim (opt_scanId o') then opt_scanId o' else JStr g)),
         (''timeoutMs'', Prim
             (case opts of None \<Rightarrow> maxExecutionTime svc
              | Some o' \<Rightarrow> if truthy_prim (opt_timeoutMs o') then opt_timeoutMs o'
                          else maxExecutionTime svc))])]
   \<and> delivered (wjournal (executeScanInWorker svc code opts g
        (replicate n (WorkerExit 0) @ TimerFire # wpost))) =
     [Failed (Obj False
        [(''code'', str ''SCAN_TIMEOUT''),
         (''message'', str (''Worker scan exceeded maximum execution time of '' @ js_template
             (case opts of None \<Rightarrow> maxExecutionTime svc
              | Some o' \<Rightarrow> if truthy_prim (opt_timeoutMs o') then opt_timeoutMs o'
                          else maxExecutionTime svc) @ ''ms'')),
         (''scanId'', Prim
             (case opts of None \<Rightarrow> JStr g
              | Some o' \<Rightarrow> if truthy_prim (opt_scanId o') then opt_scanId o' else JStr g)),
         (''timeoutMs'', Prim
             (case opts of None \<Rightarrow> maxExecutionTime svc
              | Some o' \<Rightarrow> if truthy_prim (opt_timeoutMs o') then opt_timeoutMs o'
                          else maxExecutionTime svc))])]
   \<and> js_template (JNum ms) = show_int (sint ms) \<and> js_template (JOther r) = r
   \<and> js_template (JStr st) = st
   \<and> delivered (journal (executeScan \<lparr>maxExecutionTime = JNum 30000\<rparr> code None ''scan_1''
        (TimerFires # post))) =
     [Failed (Obj False
        [(''code'', str ''SCAN_TIMEOUT''),
         (''message'', str ''Scan exceeded maximum execution time of 30000ms''),
         (''scanId'', str ''scan_1''),
         (''timeoutMs'', Prim (JNum 30000))])]
   \<and> delivered (wjournal (executeScanInWorker \<lparr>maxExecutionTime = JNum 30000\<rparr> code None
        ''worker_scan_1'' (TimerFire # wpost))) =
     [Failed (Obj False
        [(''code'', str ''SCAN_TIMEOUT''),
         (''message'', str ''Worker scan exceeded maximum execution time of 30000ms''),
         (''scanId'', str ''worker_scan_1''),
         (''timeoutMs'', Prim (JNum 30000))])]
   \<and> delivered (journal (executeScan \<lparr>maxExecutionTime = JNum 30000\<rparr> code
        (Some \<lparr>opt_timeoutMs = JNum 500, opt_scanId = JStr ''job-1''\<rparr>) g (TimerFires # post))) =
     [Failed (Obj False
        [(''code'', str ''SCAN_TIMEOUT''),
         (''message'', str ''Scan exceeded maximum execution time of 500ms''),
         (''scanId'', str ''job-1''),
         (''timeoutMs'', Prim (JNum 500))])]
   \<and> delivered (wjournal (executeScanInWorker \<lparr>maxExecutionTime = JStr ''15000''\<rparr> code
        (Some \<lparr>opt_timeoutMs = JNum 0, opt_scanId = JUndefined\<rparr>) ''worker_scan_2''
        (TimerFire # wpost))) =
     [Failed (Obj False
        [(''code'', str ''SCAN_TIMEOUT''),
         (''message'', str ''Worker scan exceeded maximum execution time of 15000ms''),
         (''scanId'', str ''worker_scan_2''),
         (''timeoutMs'', Prim (JStr ''15000''))])]
   \<and> delivered (journal (executeScan \<lparr>maxExecutionTime = JNum 30000\<rparr> code
        (Some \<lparr>opt_timeoutMs = JOther ''1e+21'', opt_scanId = JStr ''''\<rparr>) ''scan_3''
        (TimerFires # post))) =
     [Failed (Obj False
        [(''code'', str ''SCAN_TIMEOUT''),
         (''message'', str ''Scan exceeded maximum execution time of 1e+21ms''),
         (''scanId'', str ''scan_3''),
         (''timeoutMs'', Prim (JOther ''1e+21''))])]"
proof -
  have s500: "show_int 500 = ''500''" by (simp add: show_int_def show_nat.simps)
  have s30000: "show_int 30000 = ''30000''" by (simp add: show_int_def show_nat.simps)
  note a = inline_timer_first and b = worker_timer_first
  note b0 = worker_timer_first [where n = 0, simplified]
  have g1: "delivered (journal (executeScan svc code opts g (TimerFires # post))) =
     [Failed (inlineTimeoutError
        (case opts of None \<Rightarrow> JStr g
         | Some o' \<Rightarrow> if truthy_prim (opt_scanId o') then opt_scanId o' else JStr g)
        (case opts of None \<Rightarrow> maxExecutionTime svc
         | Some o' \<Rightarrow> if truthy_prim (opt_timeoutMs o') then opt_timeoutMs o'
                     else maxExecutionTime svc))]"
    unfolding a effectiveTimeout_cases effectiveScanId_cases by (rule refl)
  have g2: "delivered (wjournal (executeScanInWorker svc code opts g
        (replicate n (WorkerExit 0) @ TimerFire # wpost))) =
     [Failed (workerTimeoutError
        (case opts of None \<Rightarrow> JStr g
         | Some o' \<Rightarrow> if truthy_prim (opt_scanId o') then opt_scanId o' else JStr g)
        (case opts of None \<Rightarrow> maxExecutionTime svc
         | Some o' \<Rightarrow> if truthy_prim (opt_timeoutMs o') then opt_timeoutMs o'
                     else maxExecutionTime svc))]"
    unfolding b effectiveTimeout_cases effectiveScanId_cases by (rule refl)
  have g3: "js_template (JNum ms) = show_int (sint ms)" "js_template (JOther r) = r"
    "js_template (JStr st) = st"
    by simp_all
  have c1: "delivered (journal (executeScan \<lparr>maxExecutionTime = JNum 30000\<rparr> code None ''scan_1''
        (TimerFires # post))) =
     [Failed (Obj False
        [(''code'', str ''SCAN_TIMEOUT''),
         (''message'', str ''Scan exceeded maximum execution time of 30000ms''),
         (''scanId'', str ''scan_1''),
         (''timeoutMs'', Prim (JNum 30000))])]"
    unfolding a inlineTimeoutError_def
    by (simp add: effectiveTimeout_def effectiveScanId_def options_timeoutMs_def
        options_scanId_def js_or_def s30000)
  have c2: "delivered (wjournal (executeScanInWorker \<lparr>maxExecutionTime = JNum 30000\<rparr> code None
        ''worker_scan_1'' (TimerFire # wpost))) =
     [Failed (Obj False
        [(''code'', str ''SCAN_TIMEOUT''),
         (''message'', str ''Worker scan exceeded maximum execution time of 30000ms''),
         (''scanId'', str ''worker_scan_1''),
         (''timeoutMs'', Prim (JNum 30000))])]"
    unfolding b0 workerTimeoutError_def
    by (simp add: effectiveTimeout_def effectiveScanId_def options_timeoutMs_def
        options_scanId_def js_or_def s30000)
  have c3: "delivered (journal (executeScan \<lparr>maxExecutionTime = JNum 30000\<rparr> code
        (Some \<lparr>opt_timeoutMs = JNum 500, opt_scanId = JStr ''job-1''\<rparr>) g (TimerFires # post))) =
     [Failed (Obj False
        [(''code'', str ''SCAN_TIMEOUT''),
         (''message'', str ''Scan exceeded maximum execution time of 500ms''),
         (''scanId'', str ''job-1''),
         (''timeoutMs'', Prim (JNum 500))])]"
    unfolding a inlineTimeoutError_def
    by (simp add: effectiveTimeout_def effectiveScanId_def options_timeoutMs_def
        options_scanId_def js_or_def s500)
  have c4: "delivered (wjournal (executeScanInWorker \<lparr>maxExecutionTime = JStr ''15000''\<rparr> code
        (Some \<lparr>opt_timeoutMs = JNum 0, opt_scanId = JUndefined\<rparr>) ''worker_scan_2''
        (TimerFire # wpost))) =
     [Failed (Obj False
        [(''code'', str ''SCAN_TIMEOUT''),
         (''message'', str ''Worker scan exceeded maximum execution time of 15000ms''),
         (''scanId'', str ''worker_scan_2''),
         (''timeoutMs'', Prim (JStr ''15000''))])]"
    unfolding b0 workerTimeoutError_def
    by (simp add: effectiveTimeout_def effectiveScanId_def options_timeoutMs_def
        options_scanId_def js_or_def)
  have c5: "delivered (journal (executeScan \<lparr>maxExecutionTime = JNum 30000\<rparr> code
        (Some \<lparr>opt_timeoutMs = JOther ''1e+21'', opt_scanId = JStr ''''\<rparr>) ''scan_3''
        (TimerFires # post))) =
     [Failed (Obj False
        [(''code'', str ''SCAN_TIMEOUT''),
         (''message'', str ''Scan exceeded maximum execution time of 1e+21ms''),
         (''scanId'', str ''scan_3''),
         (''timeoutMs'', Prim (JOther ''1e+21''))])]"
    unfolding a inlineTimeoutError_def
    by (simp add: effectiveTimeout_def effectiveScanId_def options_timeoutMs_def
        options_scanId_def js_or_def)
  show ?thesis
    by (intro conjI)
      (fact g1 [unfolded inlineTimeoutError_def] g2 [unfolded workerTimeoutError_def]
        g3 c1 c2 c3 c4 c5)+
qed

text \<open>
  Claim C7: in isolated mode, when the timer resolves the job, the handler appends to the
  journal, in this order, \<^verbatim>\<open>worker.terminate()\<close>, the warning and the rejection with the
  timeout error; nothing was delivered and nothing terminated before.
\<close>

theorem C7_terminate_before_timeout:
  "wjournal (executeScanInWorker svc code opts g (replicate n (WorkerExit 0) @ TimerFire # post)) =
     wjournal (executeScanInWorker svc code opts g []) @
     [Terminate,
      Logged (LogWarn (''Worker scan '' @ js_template (effectiveScanId opts g) @ '' timed out after ''
                       @ js_template (effectiveTimeout svc opts) @ ''ms'')),
      Deliver (Failed (workerTimeoutError (effectiveScanId opts g) (effectiveTimeout svc opts)))]
   \<and> delivered (wjournal (executeScanInWorker svc code opts g [])) = []
   \<and> Terminate \<notin> set (wjournal (executeScanInWorker svc code opts g []))"
proof -
  have run0: "executeScanInWorker svc code opts g [] =
              worker_start code (effectiveScanId opts g) (effectiveTimeout svc opts)"
    by (simp add: executeScanInWorker_def Let_def)
  show ?thesis
    by (simp add: worker_run_exit0_then run0 worker_start_def)
qed

text \<open>
  Claim C10: an exit with code 0 on an unresolved job changes nothing: the job is not
  resolved, its timer is not cleared, nothing is delivered. When the timer fires next,
  the outcome is the timeout error, whatever follows.
\<close>

theorem C10_clean_exit_waits_for_deadline:
  "executeScanInWorker svc code opts g [WorkerExit 0] = executeScanInWorker svc code opts g []
   \<and> \<not> isResolved (executeScanInWorker svc code opts g [WorkerExit 0])
   \<and> \<not> timeoutCleared (executeScanInWorker svc code opts g [WorkerExit 0])
   \<and> delivered (wjournal (executeScanInWorker svc code opts g [WorkerExit 0])) = []
   \<and> delivered (wjournal (executeScanInWorker svc code opts g (WorkerExit 0 # TimerFire # post)))
       = [Failed (workerTimeoutError (effectiveScanId opts g) (effectiveTimeout svc opts))]
   \<and> js_get (workerTimeoutError (effectiveScanId opts g) (effectiveTimeout svc opts)) ''code''
       = str ''SCAN_TIMEOUT''"
proof -
  have a: "executeScanInWorker svc code opts g (WorkerExit 0 # TimerFire # post) =
           executeScanInWorker svc code opts g (replicate 1 (WorkerExit 0) @ TimerFire # post)"
    by simp
  show ?thesis
    unfolding a worker_run_exit0_then [of TimerFire, simplified]
    by (simp add: executeScanInWorker_def worker_start_def delivered_append workerTimeoutError_def
        Let_def)
qed

section \<open>Faults\<close>

text \<open>
  Claim C4, as the spec states it, asks that a failure of the work function gives a fault
  with the underlying error's message. The \<^verbatim>\<open>catch\<close> block takes the message only from an
  \<^verbatim>\<open>Error\<close> instance: a rejection with the plain object
  \<^verbatim>\<open>{ code: 'INVALID_INPUT', message: 'contractCode cannot be empty' }\<close> gives the message
  \<^verbatim>\<open>'Unknown scan error'\<close>.
\<close>

theorem C4_counterexample:
  "str ''Unknown scan error'' \<noteq> str ''contractCode cannot be empty''
   \<and> js_get (Obj False [(''code'', str ''INVALID_INPUT''),
                      (''message'', str ''contractCode cannot be empty'')]) ''message''
     = str ''contractCode cannot be empty''
   \<and> delivered (journal (executeScan \<lparr>maxExecutionTime = JNum 30000\<rparr> ''contract''
        (Some \<lparr>opt_timeoutMs = JUndefined, opt_scanId = JStr ''job-1''\<rparr>) ''scan_1''
        [ScanRejects (Obj False [(''code'', str ''INVALID_INPUT''),
                                 (''message'', str ''contractCode cannot be empty'')])])) =
     [Failed (Obj False
        [(''code'', str ''SCAN_ERROR''),
         (''message'', str ''Unknown scan error''),
         (''scanId'', str ''job-1'')])]"
  by (simp add: executeScan_def inline_start_def raceSettles_def isTimeoutError_def
      inlineScanError_def effectiveScanId_def effectiveTimeout_def options_scanId_def
      options_timeoutMs_def js_or_def Let_def)

text \<open>
  Claim C4, amended: in inline mode, when the work function fails before the timer fires,
  the only outcome is a rejection. If the failure is an object whose \<^verbatim>\<open>code\<close> is
  \<^verbatim>\<open>'SCAN_TIMEOUT'\<close>, it is the failure itself, unchanged. Otherwise it is
  \<^verbatim>\<open>{ code: 'SCAN_ERROR', message, scanId }\<close>, where the message is the failure's own
  message when the failure is an \<^verbatim>\<open>Error\<close> instance and \<^verbatim>\<open>'Unknown scan error'\<close> when it
  is anything else. For \<^verbatim>\<open>new Error(msg)\<close> the message is \<^verbatim>\<open>msg\<close>.
\<close>

theorem C4_inline_fault:
  "delivered (journal (executeScan svc code opts g (ScanRejects error # post))) =
     [if isTimeoutError error then Failed error
      else Failed (Obj False
        [(''code'', str ''SCAN_ERROR''),
         (''message'', if instanceofError error then js_get error ''message''
                       else str ''Unknown scan error''),
         (''scanId'', Prim (effectiveScanId opts g))])]
   \<and> isTimeoutError error =
       (truthy error \<and> typeof_object error \<and> js_in ''code'' error
        \<and> js_get error ''code'' = str ''SCAN_TIMEOUT'')
   \<and> js_get (newError msg) ''message'' = str msg \<and> instanceofError (newError msg)
   \<and> \<not> isTimeoutError (newError msg)"
proof -
  have a: "delivered (journal (executeScan svc code opts g (ScanRejects error # post))) =
     [if isTimeoutError error then Failed error
      else Failed (inlineScanError (effectiveScanId opts g) error)]"
    by (simp only: inline_run_cons inline_first_rejects)
  show ?thesis
    unfolding a by (simp add: inlineScanError_def isTimeoutError_def newError_def)
qed

text \<open>
  The fault objects built by the inline \<^verbatim>\<open>catch\<close> block, by the \<^verbatim>\<open>error\<close> and \<^verbatim>\<open>exit\<close>
  handlers of the isolated coordinator and by the \<^verbatim>\<open>catch\<close> block of the worker's
  \<^verbatim>\<open>performScan\<close> carry the code \<^verbatim>\<open>'SCAN_ERROR'\<close> and the job's id. The object built by
  the last handler of the worker script has no \<^verbatim>\<open>scanId\<close>.
\<close>

lemma fault_paths_carry_scanId:
  "js_get (inlineScanError sid e) ''code'' = str ''SCAN_ERROR''
   \<and> js_get (inlineScanError sid e) ''scanId'' = Prim sid
   \<and> (case workerErrorError sid e of None \<Rightarrow> nullish e
       | Some x \<Rightarrow> js_get x ''code'' = str ''SCAN_ERROR'' \<and> js_get x ''scanId'' = Prim sid)
   \<and> js_get (workerExitError sid c) ''code'' = str ''SCAN_ERROR''
   \<and> js_get (workerExitError sid c) ''scanId'' = Prim sid
   \<and> js_get (worker_catch_result (workerData code sid) e) ''code'' = str ''SCAN_ERROR''
   \<and> js_get (worker_catch_result (workerData code sid) e) ''scanId'' = Prim sid"
  by (simp add: inlineScanError_def workerErrorError_def workerExitError_def
      worker_catch_result_def workerData_def)

lemma worker_fatal_result_no_scanId: "\<not> js_in ''scanId'' (worker_fatal_result e)"
  by (simp add: worker_fatal_result_def)

text \<open>
  Claim C5 asks that every fault outcome carries the job's id, on every error path of the
  execution unit. Here the analysis throws an object that holds a function. The
  \<^verbatim>\<open>catch\<close> block of \<^verbatim>\<open>performScan\<close> puts it in \<^verbatim>\<open>details\<close>, \<^verbatim>\<open>postMessage\<close> cannot
  clone it and throws, the promise of \<^verbatim>\<open>performScan\<close> rejects, and the last handler of
  the script posts its own object; the coordinator rejects with that object as it is. The
  job's id was \<^verbatim>\<open>job-1\<close>; the outcome has no \<^verbatim>\<open>scanId\<close>.
\<close>

theorem C5_fatal_path_loses_scanId:
  "delivered (wjournal (executeScanInWorker \<lparr>maxExecutionTime = JNum 30000\<rparr> ''contract''
      (Some \<lparr>opt_timeoutMs = JUndefined, opt_scanId = JStr ''job-1''\<rparr>) ''worker_scan_1''
      (concat (map as_message (fst (worker_main
         \<lparr>parentPort = True,
          analysis = Some (Obj False [(''reason'', str ''out of gas''), (''retry'', Fun)]),
          postMessage = cloningPostMessage ''() => {} could not be cloned.'',
          clock = 1700000000000\<rparr>
         (workerData ''contract'' (JStr ''job-1''))))))))
   = [Failed (Obj False
        [(''code'', str ''SCAN_ERROR''),
         (''message'', str ''() => {} could not be cloned.''),
         (''details'', newError ''() => {} could not be cloned.'')])]
   \<and> \<not> js_in ''scanId'' (Obj False
        [(''code'', str ''SCAN_ERROR''),
         (''message'', str ''() => {} could not be cloned.''),
         (''details'', newError ''() => {} could not be cloned.'')])"
  by (simp add: executeScanInWorker_def worker_main_def worker_performScan_def worker_try_def
      worker_catch_result_def worker_fatal_result_def cloningPostMessage_def newError_def
      workerData_def worker_start_def effectiveScanId_def effectiveTimeout_def
      options_scanId_def options_timeoutMs_def js_or_def Let_def)

text \<open>
  Claim C8: in isolated mode, when the first signal is an exit with a non-zero code, the
  only outcome is a rejection with \<^verbatim>\<open>{ code: 'SCAN_ERROR', message, scanId }\<close> whose
  message is \<^verbatim>\<open>Worker exited unexpectedly with code\<close> followed by the code, whatever
  follows.
\<close>

theorem C8_abnormal_exit:
  "c \<noteq> 0 \<Longrightarrow>
   delivered (wjournal (executeScanInWorker svc code opts g (WorkerExit c # post))) =
     [Failed (Obj False
        [(''code'', str ''SCAN_ERROR''),
         (''message'', str (''Worker exited unexpectedly with code '' @ show_int c)),
         (''scanId'', Prim (effectiveScanId opts g))])]"
  by (simp add: worker_run_first worker_start_def delivered_append workerExitError_def)

text \<open>
  Claim C8 at a concrete run: the worker exits with code 1, the timer fires later.
\<close>

theorem C8_abnormal_exit_witness:
  "(1::int) \<noteq> 0
   \<and> delivered (wjournal (executeScanInWorker \<lparr>maxExecutionTime = JNum 30000\<rparr> ''contract''
        (Some \<lparr>opt_timeoutMs = JUndefined, opt_scanId = JStr ''job-1''\<rparr>) ''worker_scan_1''
        (WorkerExit 1 # [TimerFire]))) =
     [Failed (Obj False
        [(''code'', str ''SCAN_ERROR''),
         (''message'', str ''Worker exited unexpectedly with code 1''),
         (''scanId'', str ''job-1'')])]"
proof -
  have s1: "show_int 1 = ''1''" by code_simp
  have h: "(1::int) \<noteq> 0" by simp
  from C8_abnormal_exit [OF h, of "\<lparr>maxExecutionTime = JNum 30000\<rparr>" "''contract''"
      "Some \<lparr>opt_timeoutMs = JUndefined, opt_scanId = JStr ''job-1''\<rparr>" "''worker_scan_1''"
      "[TimerFire]"]
  show ?thesis
    by (simp add: s1 effectiveScanId_def options_scanId_def js_or_def)
qed

section \<open>Completion\<close>




end
